theory Spec2Isabelle
  imports Main
begin

section \<open>Python values\<close>

text \<open>
  The values that flow through \<^verbatim>\<open>app.py\<close>: what \<^verbatim>\<open>resp.json()\<close> can return
  (None, booleans, numbers, strings, lists, dicts with string keys) and the tuples the
  error handlers build. JSON numbers are kept as integers; none of the functions below
  inspects a number beyond its truth value. A dict is an association list in insertion
  order, looked up with \<open>map_of\<close>.
\<close>

datatype pyval =
    PNone
  | PBool bool
  | PInt int
  | PStr string
  | PList "pyval list"
  | PTuple "pyval list"
  | PDict "(string \<times> pyval) list"

text \<open>Python's truth value, as used by \<^verbatim>\<open>x or y\<close>.\<close>

fun truthy :: "pyval \<Rightarrow> bool" where
  "truthy PNone = False"
| "truthy (PBool b) = b"
| "truthy (PInt i) = (i \<noteq> 0)"
| "truthy (PStr s) = (s \<noteq> [])"
| "truthy (PList xs) = (xs \<noteq> [])"
| "truthy (PTuple xs) = (xs \<noteq> [])"
| "truthy (PDict kvs) = (kvs \<noteq> [])"

section \<open>The HTTP layer\<close>

text \<open>
  A response as the code reads it: \<^verbatim>\<open>status_code\<close>, and the result of \<^verbatim>\<open>json()\<close>
  (\<open>None\<close> when the body does not decode).
\<close>

record response =
  status_code :: int
  json_body :: "pyval option"

text \<open>
  The exceptions the \<^verbatim>\<open>except\<close> clauses tell apart: the classes of
  \<^verbatim>\<open>requests.exceptions\<close> under \<^verbatim>\<open>ConnectionError\<close>, \<^verbatim>\<open>Timeout\<close> and
  \<^verbatim>\<open>HTTPError\<close>, and the other instances of \<^verbatim>\<open>Exception\<close> that the bodies of
  the \<^verbatim>\<open>try\<close> blocks can raise (\<open>OtherException\<close> stands for any class not
  named here). \<^verbatim>\<open>ConnectTimeout\<close> inherits from both \<^verbatim>\<open>ConnectionError\<close> and
  \<^verbatim>\<open>Timeout\<close>. An \<^verbatim>\<open>HTTPError\<close> carries the response that
  \<^verbatim>\<open>raise_for_status\<close> attached to it. \<^verbatim>\<open>KeyboardInterrupt\<close> and
  \<^verbatim>\<open>SystemExit\<close> are not instances of \<^verbatim>\<open>Exception\<close> and not failures of the
  HTTP call; they are outside the model.
\<close>

datatype exn =
    ConnectionError
  | ProxyError
  | SSLError
  | ConnectTimeout
  | Timeout
  | ReadTimeout
  | HTTPError response
  | JSONDecodeError
  | AttributeError
  | TypeError
  | OtherException

text \<open>\<^verbatim>\<open>isinstance(e, ConnectionError)\<close> and \<^verbatim>\<open>isinstance(e, Timeout)\<close>.\<close>

fun is_ConnectionError :: "exn \<Rightarrow> bool" where
  "is_ConnectionError ConnectionError = True"
| "is_ConnectionError ProxyError = True"
| "is_ConnectionError SSLError = True"
| "is_ConnectionError ConnectTimeout = True"
| "is_ConnectionError _ = False"

fun is_Timeout :: "exn \<Rightarrow> bool" where
  "is_Timeout Timeout = True"
| "is_Timeout ConnectTimeout = True"
| "is_Timeout ReadTimeout = True"
| "is_Timeout _ = False"

text \<open>What \<^verbatim>\<open>requests.get\<close> or \<^verbatim>\<open>requests.post\<close> does: raise, or return a response.\<close>

datatype http_outcome = Raises exn | Responds response

text \<open>
  \<^verbatim>\<open>Response.raise_for_status\<close> raises \<^verbatim>\<open>HTTPError\<close> for a 4xx or 5xx status, and
  \<^verbatim>\<open>Response.ok\<close> is true when it does not raise.
\<close>

definition raise_for_status :: "response \<Rightarrow> exn + unit" where
  "raise_for_status r =
     (if 400 \<le> status_code r \<and> status_code r < 600 then Inl (HTTPError r) else Inr ())"

definition ok :: "response \<Rightarrow> bool" where
  "ok r = (case raise_for_status r of Inl _ \<Rightarrow> False | Inr _ \<Rightarrow> True)"

definition json :: "response \<Rightarrow> exn + pyval" where
  "json r = (case json_body r of None \<Rightarrow> Inl JSONDecodeError | Some v \<Rightarrow> Inr v)"

text \<open>
  \<^verbatim>\<open>d.get(key, default)\<close>: only a dict has the method; on any other value the attribute
  lookup raises \<^verbatim>\<open>AttributeError\<close>.
\<close>

fun py_get :: "pyval \<Rightarrow> string \<Rightarrow> pyval \<Rightarrow> exn + pyval" where
  "py_get (PDict kvs) k d = Inr (case map_of kvs k of Some v \<Rightarrow> v | None \<Rightarrow> d)"
| "py_get _ k d = Inl AttributeError"

section \<open>Health check\<close>

text \<open>
  \<^verbatim>\<open>check_backend\<close>, lines 40 to 48. The parameter is the outcome of the GET to
  \<^verbatim>\<open>/health\<close>. Every exception of the \<^verbatim>\<open>try\<close> body falls through to the last
  \<^verbatim>\<open>return\<close>.
\<close>

definition check_backend_try :: "http_outcome \<Rightarrow> exn + bool" where
  "check_backend_try get =
     (case get of
        Raises e \<Rightarrow> Inl e
      | Responds r \<Rightarrow>
          (case raise_for_status r of
             Inl e \<Rightarrow> Inl e
           | Inr _ \<Rightarrow>
               if ok r then
                 (case json r of
                    Inl e \<Rightarrow> Inl e
                  | Inr data \<Rightarrow>
                      (case py_get data ''status'' PNone of
                         Inl e \<Rightarrow> Inl e
                       | Inr v \<Rightarrow> Inr (v = PStr ''ok'')))
               else Inr False))"

definition check_backend :: "http_outcome \<Rightarrow> string" where
  "check_backend get =
     (case check_backend_try get of
        Inr True \<Rightarrow> ''backend=READY''
      | _ \<Rightarrow> ''backend=DOWN'')"

section \<open>Sample questions\<close>

definition FALLBACK_QUESTIONS :: "pyval list" where
  "FALLBACK_QUESTIONS =
     [PStr ''Where is the observatory located?'',
      PStr (''Describe the governance settings for observing cycle length, cycle start date, cycle end date, and director''
            @ [CHR 0xE2, CHR 0x80, CHR 0x99] @ ''s discretionary time per cycle?''),
      PStr ''Outline the key policies for observing modes, observing queue categories, and remote observation support?'',
      PStr ''Summarize the discovery details for Dhruva Exoplanet and Aditi Pulsar?'',
      PStr ''Give the deepimager exposure time range?'',
      PStr ''Summarize the key calibration settings for flat field frames per filter per night, flat field illumination source, viscam twilight flat window, and flat field exposure level?'']"

text \<open>
  \<^verbatim>\<open>fetch_sample_questions\<close>, lines 54 to 72. \<^verbatim>\<open>isinstance(data, list)\<close> holds of a
  JSON array only; the list is returned as it came.
\<close>

definition fetch_sample_questions_try :: "http_outcome \<Rightarrow> exn + pyval list option" where
  "fetch_sample_questions_try get =
     (case get of
        Raises e \<Rightarrow> Inl e
      | Responds resp \<Rightarrow>
          (case raise_for_status resp of
             Inl e \<Rightarrow> Inl e
           | Inr _ \<Rightarrow>
               (case json resp of
                  Inl e \<Rightarrow> Inl e
                | Inr data \<Rightarrow>
                    (case data of PList xs \<Rightarrow> Inr (Some xs) | _ \<Rightarrow> Inr None))))"

definition fetch_sample_questions :: "http_outcome \<Rightarrow> pyval list" where
  "fetch_sample_questions get =
     (case fetch_sample_questions_try get of
        Inr (Some xs) \<Rightarrow> xs
      | _ \<Rightarrow> FALLBACK_QUESTIONS)"

section \<open>Objects and references\<close>

text \<open>
  \<^verbatim>\<open>call_api\<close> receives the transcript and the session state as references to
  objects that its caller keeps, copies the transcript and appends to the copy. The
  store is a list of objects and an address is an index into it; a new object goes to
  the end, so its address is fresh. What an object contains is a value.
\<close>

type_synonym addr = nat
type_synonym heap = "pyval list"

definition alloc :: "heap \<Rightarrow> pyval \<Rightarrow> addr \<times> heap" where
  "alloc h v = (length h, h @ [v])"

text \<open>
  \<^verbatim>\<open>x or <literal>\<close>: the object \<open>x\<close> itself when it is true, otherwise a new
  object built from the literal.
\<close>

definition py_or :: "heap \<Rightarrow> addr \<Rightarrow> pyval \<Rightarrow> addr \<times> heap" where
  "py_or h a v = (if truthy (h ! a) then (a, h) else alloc h v)"

text \<open>
  \<^verbatim>\<open>list(x)\<close>: the items of a list or tuple, the characters of a string, the keys of
  a dict; \<^verbatim>\<open>TypeError\<close> for a value that is not iterable.
\<close>

fun py_list :: "pyval \<Rightarrow> exn + pyval list" where
  "py_list (PList xs) = Inr xs"
| "py_list (PTuple xs) = Inr xs"
| "py_list (PStr s) = Inr (map (\<lambda>c. PStr [c]) s)"
| "py_list (PDict kvs) = Inr (map (\<lambda>kv. PStr (fst kv)) kvs)"
| "py_list _ = Inl TypeError"

text \<open>
  \<^verbatim>\<open>data.get(key, default)\<close> where the default is one of the caller's objects: a
  value found in the decoded body is a new object, a missing key gives the default
  object itself.
\<close>

definition get_ref :: "heap \<Rightarrow> (string \<times> pyval) list \<Rightarrow> string \<Rightarrow> addr \<Rightarrow> addr \<times> heap" where
  "get_ref h kvs k d = (case map_of kvs k of Some v \<Rightarrow> alloc h v | None \<Rightarrow> (d, h))"

section \<open>Decimal rendering of the status code\<close>

definition digit_char :: "nat \<Rightarrow> char" where
  "digit_char n = ''0123456789'' ! n"

function str_nat :: "nat \<Rightarrow> string" where
  "str_nat n = (if n < 10 then [digit_char n] else str_nat (n div 10) @ [digit_char (n mod 10)])"
  by pat_completeness auto
termination
  by (relation "measure (\<lambda>n. n)") auto

declare str_nat.simps [simp del]

text \<open>\<^verbatim>\<open>str(i)\<close> for an integer, as the f-string formats it.\<close>

definition str_int :: "int \<Rightarrow> string" where
  "str_int i = (if i < 0 then CHR ''-'' # str_nat (nat (- i)) else str_nat (nat i))"

section \<open>Chat proxy\<close>

text \<open>
  The dict of lines 91 to 97, as \<^verbatim>\<open>requests.post(json=payload)\<close> serialises it: the
  contents of the objects it refers to.
\<close>

definition build_payload ::
  "heap \<Rightarrow> string \<Rightarrow> addr \<Rightarrow> string \<Rightarrow> bool \<Rightarrow> addr \<Rightarrow> pyval \<times> heap" where
  "build_payload h user_msg chat_history mode use_history state =
     (let (ch, h1) = py_or h chat_history (PList []);
          (st, h2) = py_or h1 state (PDict [])
      in (PDict [(''user_msg'', PStr user_msg),
                 (''chat_history'', h2 ! ch),
                 (''mode'', PStr mode),
                 (''use_history'', PBool use_history),
                 (''state'', h2 ! st)], h2))"

text \<open>
  The body of the \<^verbatim>\<open>try\<close>, lines 102 to 108, up to the \<^verbatim>\<open>return\<close>. The parameter
  \<open>post\<close> is the backend seen through \<^verbatim>\<open>requests.post\<close>: what the call does for a
  given payload. \<^verbatim>\<open>data.keys()\<close> raises \<^verbatim>\<open>AttributeError\<close> unless the decoded body
  is a dict. The \<^verbatim>\<open>print\<close> calls are left out.
\<close>

definition call_api_try :: "(pyval \<Rightarrow> http_outcome) \<Rightarrow> pyval \<Rightarrow> exn + (string \<times> pyval) list" where
  "call_api_try post payload =
     (case post payload of
        Raises e \<Rightarrow> Inl e
      | Responds resp \<Rightarrow>
          (case raise_for_status resp of
             Inl e \<Rightarrow> Inl e
           | Inr _ \<Rightarrow>
               (case json resp of
                  Inl e \<Rightarrow> Inl e
                | Inr data \<Rightarrow>
                    (case data of PDict kvs \<Rightarrow> Inr kvs | _ \<Rightarrow> Inl AttributeError))))"

text \<open>
  The body shared by the four \<^verbatim>\<open>except\<close> clauses, with its message: copy the
  transcript, append the turn to the copy, return. An exception raised here is raised
  by \<^verbatim>\<open>call_api\<close>: no clause of the same \<^verbatim>\<open>try\<close> catches it.
\<close>

definition handler ::
  "heap \<Rightarrow> string \<Rightarrow> addr \<Rightarrow> addr \<Rightarrow> string
     \<Rightarrow> heap \<times> (exn + string \<times> addr \<times> addr \<times> pyval)" where
  "handler h user_msg chat_history state err_msg =
     (case py_list (h ! chat_history) of
        Inl e \<Rightarrow> (h, Inl e)
      | Inr xs \<Rightarrow>
          (let (new_hist, h1) = alloc h (PList xs);
               h2 = h1[new_hist := PList (xs @ [PTuple [PStr user_msg, PStr err_msg]])];
               (st, h3) = py_or h2 state (PDict [])
           in (h3, Inr (user_msg, new_hist, st, PStr err_msg))))"

text \<open>
  \<^verbatim>\<open>call_api\<close>, lines 78 to 142. The result is the store after the call and either
  the exception the call raises or the tuple it returns. The \<^verbatim>\<open>except\<close> clauses are
  tried in the order of the source.
\<close>

definition call_api ::
  "(pyval \<Rightarrow> http_outcome) \<Rightarrow> heap \<Rightarrow> string \<Rightarrow> addr \<Rightarrow> string \<Rightarrow> bool \<Rightarrow> addr
     \<Rightarrow> heap \<times> (exn + string \<times> addr \<times> addr \<times> pyval)" where
  "call_api post h user_msg chat_history mode use_history state =
     (let (payload, h1) = build_payload h user_msg chat_history mode use_history state
      in case call_api_try post payload of
           Inr data \<Rightarrow>
             (let (ch, h2) = get_ref h1 data ''chat_history'' chat_history;
                  (st, h3) = get_ref h2 data ''state'' state
              in (h3, Inr (user_msg, ch, st,
                           (case map_of data ''status'' of Some v \<Rightarrow> v | None \<Rightarrow> PStr []))))
         | Inl e \<Rightarrow>
             if is_ConnectionError e then
               handler h1 user_msg chat_history state
                 ''Backend not reachable (connection refused). Please retry when the backend server is running...''
             else if is_Timeout e then
               handler h1 user_msg chat_history state
                 ''Backend took too long. Please try again later.''
             else
               (case e of
                  HTTPError r \<Rightarrow>
                    handler h1 user_msg chat_history state
                      (''Backend returned HTTP Error : '' @ str_int (status_code r) @ ''.'')
                | _ \<Rightarrow>
                    handler h1 user_msg chat_history state ''Unknown client error.''))"

text \<open>
  Two backends for concrete runs: one whose POST raises a given exception, one that
  answers with a given response, whatever the payload.
\<close>

definition backend_raising :: "exn \<Rightarrow> pyval \<Rightarrow> http_outcome" where
  "backend_raising e payload = Raises e"

definition backend_responding :: "response \<Rightarrow> pyval \<Rightarrow> http_outcome" where
  "backend_responding r payload = Responds r"

text \<open>
  The message set by the clause that catches an exception. The clauses are tried in the
  order of the source (lines 119, 126, 132, 138) and the first whose class the exception
  is an instance of handles it.
\<close>

definition err_msg :: "exn \<Rightarrow> string" where
  "err_msg e =
     (if is_ConnectionError e then
        ''Backend not reachable (connection refused). Please retry when the backend server is running...''
      else if is_Timeout e then ''Backend took too long. Please try again later.''
      else (case e of
              HTTPError r \<Rightarrow> ''Backend returned HTTP Error : '' @ str_int (status_code r) @ ''.''
            | _ \<Rightarrow> ''Unknown client error.''))"

text \<open>
  The store when the interface starts (lines 259 and 289 of the source): an empty
  transcript at address 0 and the initial session state at address 1.
\<close>

definition initial_store :: heap where
  "initial_store = [PList [], PDict [(''session_id'', PStr ''''), (''memory'', PList [])]]"

section \<open>Properties of the health check\<close>

lemma py_get_PNone_eq_PStr:
  "(py_get a k PNone = Inr (PStr s)) = (\<exists>kvs. a = PDict kvs \<and> map_of kvs k = Some (PStr s))"
  by (cases a) (auto split: option.splits)

lemma check_backend_try_True:
  "(check_backend_try get = Inr True) =
     (\<exists>r kvs. get = Responds r \<and> ok r \<and> json_body r = Some (PDict kvs)
        \<and> map_of kvs ''status'' = Some (PStr ''ok''))"
proof (cases get)
  case (Raises e)
  then show ?thesis by (simp add: check_backend_try_def)
next
  case (Responds r)
  show ?thesis
  proof (cases "json_body r")
    case None
    with Responds show ?thesis
      by (simp add: check_backend_try_def json_def split: sum.splits)
  next
    case (Some a)
    with Responds show ?thesis
      using py_get_PNone_eq_PStr [of a "''status''" "''ok''"]
      by (auto simp add: check_backend_try_def json_def ok_def split: sum.splits)
  qed
qed

lemma ok_iff: "ok r = (\<not> (400 \<le> status_code r \<and> status_code r < 600))"
  by (simp add: ok_def raise_for_status_def)

text \<open>
  C3, as stated, fails: a response whose status is not a success status but not an error
  status either, here 302 with the body \<^verbatim>\<open>{"status": "ok"}\<close>, passes
  \<^verbatim>\<open>raise_for_status\<close> and \<^verbatim>\<open>r.ok\<close>, and \<^verbatim>\<open>check_backend\<close> answers
  \<^verbatim>\<open>backend=READY\<close>.
\<close>

theorem check_backend_redirect_counterexample:
  "check_backend (Responds \<lparr>status_code = 302,
      json_body = Some (PDict [(''status'', PStr ''ok'')])\<rparr>) = ''backend=READY''"
  by (simp add: check_backend_def check_backend_try_def raise_for_status_def ok_def json_def)

text \<open>
  C3, amended. \<^verbatim>\<open>check_backend\<close> answers \<^verbatim>\<open>backend=READY\<close> exactly when the GET
  returns a response, the status of the response is not an error status (not 4xx or
  5xx, which is what \<^verbatim>\<open>raise_for_status\<close> and \<^verbatim>\<open>r.ok\<close> test), and the body decodes
  to a JSON object whose \<^verbatim>\<open>status\<close> field is the string \<^verbatim>\<open>ok\<close>. In every other case
  (an exception, a 4xx or 5xx status, a body that does not decode, a body of another
  shape, another value of the field such as \<^verbatim>\<open>pending\<close>) it answers
  \<^verbatim>\<open>backend=DOWN\<close>.
\<close>

theorem check_backend_ready_iff:
  "check_backend get =
     (if \<exists>r kvs. get = Responds r \<and> \<not> (400 \<le> status_code r \<and> status_code r < 600)
           \<and> json_body r = Some (PDict kvs) \<and> map_of kvs ''status'' = Some (PStr ''ok'')
      then ''backend=READY'' else ''backend=DOWN'')"
  unfolding ok_iff [symmetric] check_backend_try_True [symmetric]
  by (simp add: check_backend_def split: sum.splits bool.splits)

theorem check_backend_ready_iff_witness:
  "check_backend (Responds \<lparr>status_code = 200,
      json_body = Some (PDict [(''status'', PStr ''pending'')])\<rparr>) = ''backend=DOWN''
   \<and> check_backend (Responds \<lparr>status_code = 200,
        json_body = Some (PDict [(''status'', PStr ''ok'')])\<rparr>) = ''backend=READY''
   \<and> check_backend (Responds \<lparr>status_code = 304,
        json_body = Some (PDict [(''status'', PStr ''ok'')])\<rparr>) = ''backend=READY''
   \<and> check_backend (Responds \<lparr>status_code = 503,
        json_body = Some (PDict [(''status'', PStr ''ok'')])\<rparr>) = ''backend=DOWN''
   \<and> check_backend (Responds \<lparr>status_code = 200, json_body = None\<rparr>) = ''backend=DOWN''
   \<and> check_backend (Raises ConnectionError) = ''backend=DOWN''"
  using
    check_backend_ready_iff [of "Responds \<lparr>status_code = 200,
      json_body = Some (PDict [(''status'', PStr ''pending'')])\<rparr>"]
    check_backend_ready_iff [of "Responds \<lparr>status_code = 200,
      json_body = Some (PDict [(''status'', PStr ''ok'')])\<rparr>"]
    check_backend_ready_iff [of "Responds \<lparr>status_code = 304,
      json_body = Some (PDict [(''status'', PStr ''ok'')])\<rparr>"]
    check_backend_ready_iff [of "Responds \<lparr>status_code = 503,
      json_body = Some (PDict [(''status'', PStr ''ok'')])\<rparr>"]
    check_backend_ready_iff [of "Responds \<lparr>status_code = 200, json_body = None\<rparr>"]
    check_backend_ready_iff [of "Raises ConnectionError"]
  by simp

section \<open>Properties of the sample questions\<close>

lemma fetch_sample_questions_try_Some:
  "(fetch_sample_questions_try get = Inr (Some xs)) =
     (\<exists>r. get = Responds r \<and> ok r \<and> json_body r = Some (PList xs))"
proof (cases get)
  case (Raises e)
  then show ?thesis by (simp add: fetch_sample_questions_try_def)
next
  case (Responds r)
  then show ?thesis
    by (cases "json_body r")
       (auto simp add: fetch_sample_questions_try_def ok_def json_def
             split: sum.splits pyval.splits)
qed

lemma length_FALLBACK_QUESTIONS: "length FALLBACK_QUESTIONS = 6"
  by (simp add: FALLBACK_QUESTIONS_def)

text \<open>
  C4, as stated, fails: a backend that answers with the empty JSON array gets the empty
  list back.
\<close>

theorem fetch_sample_questions_empty_counterexample:
  "fetch_sample_questions (Responds \<lparr>status_code = 200, json_body = Some (PList [])\<rparr>) = []"
  by (simp add: fetch_sample_questions_def fetch_sample_questions_try_def
        raise_for_status_def json_def)

text \<open>
  C4, amended. When the GET returns a response whose status is not an error status and
  whose body decodes to a JSON array, \<^verbatim>\<open>fetch_sample_questions\<close> returns that array as
  it came, so the result is empty exactly when the array is. On every other path (an
  exception, a 4xx or 5xx status, a body that does not decode or is not an array) it
  returns the fixed fallback list, which has six items.
\<close>

theorem fetch_sample_questions_result:
  "(\<forall>r xs. get = Responds r \<and> ok r \<and> json_body r = Some (PList xs)
       \<longrightarrow> fetch_sample_questions get = xs)
   \<and> ((\<nexists>r xs. get = Responds r \<and> ok r \<and> json_body r = Some (PList xs))
       \<longrightarrow> fetch_sample_questions get = FALLBACK_QUESTIONS)
   \<and> length FALLBACK_QUESTIONS = 6
   \<and> (fetch_sample_questions get = []) =
       (\<exists>r. get = Responds r \<and> ok r \<and> json_body r = Some (PList []))"
proof -
  have a: "fetch_sample_questions get = xs"
    if "get = Responds r \<and> ok r \<and> json_body r = Some (PList xs)" for r xs
  proof -
    from that have "fetch_sample_questions_try get = Inr (Some xs)"
      unfolding fetch_sample_questions_try_Some by blast
    then show ?thesis by (simp add: fetch_sample_questions_def)
  qed
  have b: "fetch_sample_questions get = FALLBACK_QUESTIONS"
    if "\<nexists>r xs. get = Responds r \<and> ok r \<and> json_body r = Some (PList xs)"
  proof -
    from that have "fetch_sample_questions_try get \<noteq> Inr (Some xs)" for xs
      unfolding fetch_sample_questions_try_Some by blast
    then show ?thesis
      by (simp add: fetch_sample_questions_def split: sum.splits option.splits)
  qed
  have ne: "FALLBACK_QUESTIONS \<noteq> []"
    using length_FALLBACK_QUESTIONS by auto
  have c: "(fetch_sample_questions get = []) =
       (\<exists>r. get = Responds r \<and> ok r \<and> json_body r = Some (PList []))"
  proof (cases "\<exists>r xs. get = Responds r \<and> ok r \<and> json_body r = Some (PList xs)")
    case True
    then obtain r xs where *: "get = Responds r \<and> ok r \<and> json_body r = Some (PList xs)"
      by blast
    with a [OF *] show ?thesis by auto
  next
    case False
    with b ne show ?thesis by auto
  qed
  from a b c length_FALLBACK_QUESTIONS show ?thesis by blast
qed

theorem fetch_sample_questions_result_witness:
  "fetch_sample_questions (Responds \<lparr>status_code = 200,
      json_body = Some (PList [PStr ''Where is the observatory located?''])\<rparr>)
     = [PStr ''Where is the observatory located?'']
   \<and> fetch_sample_questions (Responds \<lparr>status_code = 404, json_body = Some (PList [])\<rparr>)
     = FALLBACK_QUESTIONS
   \<and> fetch_sample_questions (Raises ReadTimeout) = FALLBACK_QUESTIONS"
  using
    fetch_sample_questions_result [of "Responds \<lparr>status_code = 200,
      json_body = Some (PList [PStr ''Where is the observatory located?''])\<rparr>"]
    fetch_sample_questions_result [of "Responds \<lparr>status_code = 404,
      json_body = Some (PList [])\<rparr>"]
    fetch_sample_questions_result [of "Raises ReadTimeout"]
  by (simp add: ok_def raise_for_status_def)

section \<open>Properties of the chat proxy\<close>

lemmas call_api_eval =
  call_api_def build_payload_def call_api_try_def handler_def py_or_def alloc_def get_ref_def
  backend_raising_def backend_responding_def raise_for_status_def json_def initial_store_def

lemma py_or_ext: "\<exists>ys. snd (py_or h a v) = h @ ys"
  by (simp add: py_or_def alloc_def)

lemma build_payload_ext: "\<exists>ys. snd (build_payload h m c mode u s) = h @ ys"
proof -
  obtain ch h1 where 1: "py_or h c (PList []) = (ch, h1)" by (cases "py_or h c (PList [])")
  obtain st h2 where 2: "py_or h1 s (PDict []) = (st, h2)" by (cases "py_or h1 s (PDict [])")
  from py_or_ext [of h c "PList []"] 1 obtain ys where "h1 = h @ ys" by auto
  moreover from py_or_ext [of h1 s "PDict []"] 2 obtain zs where "h2 = h1 @ zs" by auto
  ultimately show ?thesis using 1 2 by (simp add: build_payload_def)
qed

lemma build_payload_eq:
  assumes "c < length h" and "s < length h"
  shows "build_payload h m c mode u s =
     (PDict [(''user_msg'', PStr m),
             (''chat_history'', if truthy (h ! c) then h ! c else PList []),
             (''mode'', PStr mode),
             (''use_history'', PBool u),
             (''state'', if truthy (h ! s) then h ! s else PDict [])],
      h @ (if truthy (h ! c) then [] else [PList []])
        @ (if truthy (h ! s) then [] else [PDict []]))"
  using assms by (simp add: build_payload_def py_or_def alloc_def nth_append)

lemma get_ref_ext: "\<exists>ys. snd (get_ref h kvs k d) = h @ ys"
  by (simp add: get_ref_def alloc_def split: option.splits)

lemma handler_ext: "\<exists>ys. fst (handler h m c s msg) = h @ ys"
proof (cases "py_list (h ! c)")
  case (Inl e)
  then show ?thesis by (simp add: handler_def)
next
  case (Inr xs)
  let ?h2 = "h @ [PList (xs @ [PTuple [PStr m, PStr msg]])]"
  obtain st h3 where 3: "py_or ?h2 s (PDict []) = (st, h3)" by (cases "py_or ?h2 s (PDict [])")
  from py_or_ext [of ?h2 s "PDict []"] 3 obtain ys where "h3 = ?h2 @ ys" by auto
  with Inr 3 show ?thesis by (simp add: handler_def alloc_def)
qed

lemma handler_iterable:
  assumes "py_list (h ! c) = Inr xs"
  shows "\<exists>h' st. handler h m c s msg = (h', Inr (m, length h, st, PStr msg))
           \<and> h' ! length h = PList (xs @ [PTuple [PStr m, PStr msg]])"
proof -
  let ?h2 = "h @ [PList (xs @ [PTuple [PStr m, PStr msg]])]"
  obtain st h3 where 3: "py_or ?h2 s (PDict []) = (st, h3)" by (cases "py_or ?h2 s (PDict [])")
  from py_or_ext [of ?h2 s "PDict []"] 3 obtain ys where "h3 = ?h2 @ ys" by auto
  with assms 3 show ?thesis by (simp add: handler_def alloc_def nth_append)
qed

lemma handler_eq:
  assumes "py_list (h ! c) = Inr xs" and "s < length h"
  shows "handler h m c s msg =
     (if truthy (h ! s)
      then (h @ [PList (xs @ [PTuple [PStr m, PStr msg]])], Inr (m, length h, s, PStr msg))
      else (h @ [PList (xs @ [PTuple [PStr m, PStr msg]]), PDict []],
            Inr (m, length h, Suc (length h), PStr msg)))"
  using assms by (simp add: handler_def py_or_def alloc_def nth_append)

lemma handler_fresh:
  assumes "handler h m c s msg = (h', Inr (um, ch, st, status))"
  shows "ch = length h"
  using assms
  by (auto simp add: handler_def alloc_def Let_def split: sum.splits prod.splits)

lemma call_api_try_Inr:
  "(call_api_try post p = Inr data) =
     (\<exists>r. post p = Responds r \<and> ok r \<and> json_body r = Some (PDict data))"
proof (cases "post p")
  case (Raises e)
  then show ?thesis by (simp add: call_api_try_def)
next
  case (Responds r)
  then show ?thesis
    by (cases "json_body r")
       (auto simp add: call_api_try_def ok_def json_def split: sum.splits pyval.splits)
qed

lemma call_api_try_Raises:
  assumes "post p = Raises e"
  shows "call_api_try post p = Inl e"
  using assms by (simp add: call_api_try_def)

lemma call_api_try_error_status:
  assumes "post p = Responds r" and "\<not> ok r"
  shows "call_api_try post p = Inl (HTTPError r)"
  using assms by (simp add: call_api_try_def ok_def raise_for_status_def split: if_splits)

lemma call_api_Inl:
  assumes "call_api_try post (fst (build_payload h m c mode u s)) = Inl e"
  shows "call_api post h m c mode u s =
           handler (snd (build_payload h m c mode u s)) m c s (err_msg e)"
  using assms
  by (cases "build_payload h m c mode u s")
     (simp add: call_api_def err_msg_def split: exn.splits)

lemma call_api_Inr:
  assumes "call_api_try post (fst (build_payload h m c mode u s)) = Inr data"
  shows "call_api post h m c mode u s =
     (let h1 = snd (build_payload h m c mode u s);
          (ch, h2) = get_ref h1 data ''chat_history'' c;
          (st, h3) = get_ref h2 data ''state'' s
      in (h3, Inr (m, ch, st, (case map_of data ''status'' of Some v \<Rightarrow> v | None \<Rightarrow> PStr []))))"
  using assms
  by (cases "build_payload h m c mode u s") (simp add: call_api_def)

lemma call_api_success:
  assumes "call_api_try post (fst (build_payload h m c mode u s)) = Inr data"
  shows "\<exists>h' ch st status.
           call_api post h m c mode u s = (h', Inr (m, ch, st, status))
           \<and> (map_of data ''chat_history'' = None \<longrightarrow> ch = c)
           \<and> (map_of data ''state'' = None \<longrightarrow> st = s)
           \<and> (map_of data ''status'' = None \<longrightarrow> status = PStr [])"
  unfolding call_api_Inr [OF assms]
  by (simp add: Let_def get_ref_def alloc_def split: option.splits prod.splits)

lemma call_api_fail_iterable:
  assumes c: "c < length h" and T: "py_list (h ! c) = Inr xs"
    and f: "call_api_try post (fst (build_payload h m c mode u s)) = Inl e"
  shows "\<exists>h' ch st. call_api post h m c mode u s = (h', Inr (m, ch, st, PStr (err_msg e)))
           \<and> h' ! ch = PList (xs @ [PTuple [PStr m, PStr (err_msg e)]])"
proof -
  obtain ys where ys: "snd (build_payload h m c mode u s) = h @ ys"
    using build_payload_ext by blast
  with c T have "py_list (snd (build_payload h m c mode u s) ! c) = Inr xs"
    by (simp add: nth_append)
  from handler_iterable [OF this, of m s "err_msg e"] show ?thesis
    unfolding call_api_Inl [OF f] by blast
qed

lemma call_api_ext: "\<exists>ys. fst (call_api post h m c mode u s) = h @ ys"
proof -
  obtain ys where ys: "snd (build_payload h m c mode u s) = h @ ys"
    using build_payload_ext by blast
  show ?thesis
  proof (cases "call_api_try post (fst (build_payload h m c mode u s))")
    case (Inl e)
    from handler_ext [of "h @ ys" m c s "err_msg e"] show ?thesis
      unfolding call_api_Inl [OF Inl] ys by auto
  next
    case (Inr data)
    obtain ch h2 where 1: "get_ref (h @ ys) data ''chat_history'' c = (ch, h2)"
      by (cases "get_ref (h @ ys) data ''chat_history'' c")
    obtain st h3 where 2: "get_ref h2 data ''state'' s = (st, h3)"
      by (cases "get_ref h2 data ''state'' s")
    from get_ref_ext [of "h @ ys" data "''chat_history''" c] 1
    obtain zs where "h2 = (h @ ys) @ zs" by auto
    moreover from get_ref_ext [of h2 data "''state''" s] 2
    obtain ws where "h3 = h2 @ ws" by auto
    ultimately show ?thesis
      unfolding call_api_Inr [OF Inr] ys using 1 2 by (simp add: Let_def)
  qed
qed

text \<open>
  C1, as stated, fails: a connect timeout is a \<^verbatim>\<open>Timeout\<close> and also a
  \<^verbatim>\<open>ConnectionError\<close>, and the clause for \<^verbatim>\<open>ConnectionError\<close> comes first, so the
  turn and the status carry the message of that clause.
\<close>

theorem call_api_connect_timeout_counterexample:
  "is_Timeout ConnectTimeout
   \<and> initial_store ! 0 = PList []
   \<and> call_api (backend_raising ConnectTimeout) initial_store ''hello'' 0 ''SFT_RAG'' False 1 =
       (initial_store @
          [PList [],
           PList [PTuple [PStr ''hello'',
             PStr ''Backend not reachable (connection refused). Please retry when the backend server is running...'']]],
        Inr (''hello'', 3, 1,
             PStr ''Backend not reachable (connection refused). Please retry when the backend server is running...''))"
  by (simp add: call_api_eval)

text \<open>
  C1, amended. For every list-valued transcript \<open>T\<close>, when the POST fails with a
  \<^verbatim>\<open>Timeout\<close> that is not also a \<^verbatim>\<open>ConnectionError\<close> (a read timeout),
  \<^verbatim>\<open>call_api\<close> returns the user message, a transcript equal to \<open>T\<close> with the one
  turn (user message, timeout message) appended, and the timeout message as status.
\<close>

theorem call_api_timeout:
  assumes "chat_history < length h" and "h ! chat_history = PList T"
    and "post (fst (build_payload h user_msg chat_history mode use_history state)) = Raises e"
    and "is_Timeout e" and "\<not> is_ConnectionError e"
  shows "\<exists>h' ch st.
           call_api post h user_msg chat_history mode use_history state =
             (h', Inr (user_msg, ch, st, PStr ''Backend took too long. Please try again later.''))
           \<and> h' ! ch = PList (T @ [PTuple [PStr user_msg,
                                  PStr ''Backend took too long. Please try again later.'']])"
proof -
  have m: "err_msg e = ''Backend took too long. Please try again later.''"
    using assms(4,5) by (simp add: err_msg_def)
  have l: "py_list (h ! chat_history) = Inr T"
    using assms(2) by simp
  have f: "call_api_try post (fst (build_payload h user_msg chat_history mode use_history state)) = Inl e"
    using assms(3) by (rule call_api_try_Raises)
  from call_api_fail_iterable [OF assms(1) l f] m show ?thesis by simp
qed

theorem call_api_timeout_witness:
  "\<exists>h' ch st.
     call_api (backend_raising ReadTimeout)
       [PList [PTuple [PStr ''q1'', PStr ''a1'']], PDict [(''session_id'', PStr ''abc123'')]]
       ''q2'' 0 ''SFT'' True 1 =
       (h', Inr (''q2'', ch, st, PStr ''Backend took too long. Please try again later.''))
     \<and> h' ! ch = PList ([PTuple [PStr ''q1'', PStr ''a1'']] @ [PTuple [PStr ''q2'',
                            PStr ''Backend took too long. Please try again later.'']])"
  using call_api_timeout [where post = "backend_raising ReadTimeout"
      and h = "[PList [PTuple [PStr ''q1'', PStr ''a1'']], PDict [(''session_id'', PStr ''abc123'')]]"
      and chat_history = 0 and T = "[PTuple [PStr ''q1'', PStr ''a1'']]" and e = ReadTimeout
      and user_msg = "''q2''" and mode = "''SFT''" and use_history = True and state = 1]
  by (simp add: backend_raising_def)

text \<open>
  C2. \<^verbatim>\<open>call_api\<close> is to raise nothing, whatever its five inputs and whatever the
  HTTP call does. The code does not keep to this: line 93 allows for a transcript that
  is \<^verbatim>\<open>None\<close> (\<^verbatim>\<open>chat_history or []\<close>), but each handler copies the transcript with
  \<^verbatim>\<open>list(chat_history)\<close> unguarded. With the transcript \<^verbatim>\<open>None\<close> and a backend that
  cannot be reached the copy raises \<^verbatim>\<open>TypeError\<close> inside the handler, and the
  exception leaves \<^verbatim>\<open>call_api\<close>.
\<close>

theorem call_api_None_transcript_raises:
  "call_api (backend_raising ConnectionError)
     [PNone, PDict [(''session_id'', PStr ''''), (''memory'', PList [])]]
     ''hello'' 0 ''SFT_RAG'' False 1 =
     ([PNone, PDict [(''session_id'', PStr ''''), (''memory'', PList [])], PList []],
      Inl TypeError)"
  by (simp add: call_api_eval)

text \<open>
  Where the transcript is a list, or any other value that \<^verbatim>\<open>list()\<close> accepts, every
  failure of the HTTP call is absorbed and the call returns a 4-tuple whose first
  component is the user message.
\<close>

lemma call_api_returns_iterable:
  assumes "chat_history < length h" and "py_list (h ! chat_history) = Inr xs"
  shows "\<exists>h' ch st status.
           call_api post h user_msg chat_history mode use_history state =
             (h', Inr (user_msg, ch, st, status))"
proof (cases "call_api_try post (fst (build_payload h user_msg chat_history mode use_history state))")
  case (Inl e)
  from call_api_fail_iterable [OF assms Inl] show ?thesis by blast
next
  case (Inr data)
  from call_api_success [OF Inr] show ?thesis by blast
qed

text \<open>
  C5, as stated, fails: with the session state \<^verbatim>\<open>None\<close> and a failed chat call, the
  third output is a new empty dict (the object at address 4), not the input.
\<close>

theorem call_api_failure_state_counterexample:
  "call_api (backend_raising ConnectionError) [PList [PTuple [PStr ''q1'', PStr ''a1'']], PNone]
     ''q2'' 0 ''SFT_RAG'' False 1 =
     ([PList [PTuple [PStr ''q1'', PStr ''a1'']], PNone, PDict [],
       PList [PTuple [PStr ''q1'', PStr ''a1''],
              PTuple [PStr ''q2'', PStr ''Backend not reachable (connection refused). Please retry when the backend server is running...'']],
       PDict []],
      Inr (''q2'', 3, 4,
           PStr ''Backend not reachable (connection refused). Please retry when the backend server is running...''))"
  by (simp add: call_api_eval)

text \<open>
  C5, amended. For every failure of the chat call (whatever exception the body of the
  \<^verbatim>\<open>try\<close> raises) and every transcript that is a list (or another value that
  \<^verbatim>\<open>list()\<close> accepts), the third output of
  \<^verbatim>\<open>call_api\<close> is \<^verbatim>\<open>state or {}\<close>: the input state object itself, unchanged, when
  the state is true, and a new empty dict when it is not. So a dict-valued state comes
  back equal to the input, and a state such as \<^verbatim>\<open>None\<close> comes back as \<^verbatim>\<open>{}\<close>.
\<close>

theorem call_api_failure_state:
  assumes "chat_history < length h" and "state < length h"
    and "py_list (h ! chat_history) = Inr xs"
    and "call_api_try post (fst (build_payload h user_msg chat_history mode use_history state)) = Inl e"
  shows "\<exists>h' ch st status.
           call_api post h user_msg chat_history mode use_history state =
             (h', Inr (user_msg, ch, st, status))
           \<and> (truthy (h ! state) \<longrightarrow> st = state)
           \<and> (\<not> truthy (h ! state) \<longrightarrow> length h \<le> st)
           \<and> h' ! st = (if truthy (h ! state) then h ! state else PDict [])
           \<and> (\<forall>kvs. h ! state = PDict kvs \<longrightarrow> h' ! st = h ! state)"
proof -
  let ?h1 = "snd (build_payload h user_msg chat_history mode use_history state)"
  obtain ys where ys: "?h1 = h @ ys"
    using build_payload_ext by blast
  have l: "py_list (?h1 ! chat_history) = Inr xs"
    using assms(1,3) ys by (simp add: nth_append)
  have s: "state < length ?h1" and v: "?h1 ! state = h ! state"
    using assms(2) ys by (simp_all add: nth_append)
  have d: "h ! state = PDict kvs \<Longrightarrow> \<not> truthy (h ! state) \<Longrightarrow> PDict [] = h ! state" for kvs
    by simp
  show ?thesis
    unfolding call_api_Inl [OF assms(4)] handler_eq [OF l s] v
    using assms(2) ys d by (auto simp add: nth_append)
qed

theorem call_api_failure_state_witness:
  "\<exists>h' ch st status.
     call_api (backend_raising OtherException)
       [PList [], PDict [(''session_id'', PStr ''abc123'')], PDict []] ''q'' 0 ''SFT'' False 1 =
       (h', Inr (''q'', ch, st, status))
     \<and> st = 1 \<and> h' ! st = PDict [(''session_id'', PStr ''abc123'')]"
  using call_api_failure_state [where h = "[PList [], PDict [(''session_id'', PStr ''abc123'')], PDict []]"
      and chat_history = 0 and state = 1 and xs = "[]" and e = OtherException
      and post = "backend_raising OtherException"
      and user_msg = "''q''" and mode = "''SFT''" and use_history = False]
  by (simp add: backend_raising_def call_api_try_def)

text \<open>
  C6. For every successful chat call (the POST returns a response, its status is not an
  error status, the body decodes to a JSON object): when the object has no \<^verbatim>\<open>state\<close>
  key, the state returned is the input state object itself (the same address); when it
  has no \<^verbatim>\<open>chat_history\<close> key, the transcript returned is the input transcript object
  itself; when it has no \<^verbatim>\<open>status\<close> key, the status returned is the empty string.
  The objects of the caller are as they were before the call.
\<close>

theorem call_api_fallbacks:
  assumes "post (fst (build_payload h user_msg chat_history mode use_history state)) = Responds r"
    and "ok r" and "json_body r = Some (PDict data)"
  shows "\<exists>h' ch st status.
           call_api post h user_msg chat_history mode use_history state =
             (h', Inr (user_msg, ch, st, status))
           \<and> (map_of data ''state'' = None \<longrightarrow> st = state)
           \<and> (map_of data ''chat_history'' = None \<longrightarrow> ch = chat_history)
           \<and> (map_of data ''status'' = None \<longrightarrow> status = PStr '''')
           \<and> take (length h) h' = h"
proof -
  have t: "call_api_try post (fst (build_payload h user_msg chat_history mode use_history state)) = Inr data"
    unfolding call_api_try_Inr using assms by blast
  obtain ys where "fst (call_api post h user_msg chat_history mode use_history state) = h @ ys"
    using call_api_ext by blast
  with call_api_success [OF t] show ?thesis by auto
qed

theorem call_api_fallbacks_witness:
  "\<exists>h' ch st status.
     call_api (backend_responding \<lparr>status_code = 200, json_body = Some (PDict [])\<rparr>)
       initial_store ''hello'' 0 ''SFT_RAG'' False 1 = (h', Inr (''hello'', ch, st, status))
     \<and> st = 1 \<and> ch = 0 \<and> status = PStr '''' \<and> take (length initial_store) h' = initial_store"
  using call_api_fallbacks [where h = initial_store and chat_history = 0 and state = 1
      and post = "backend_responding \<lparr>status_code = 200, json_body = Some (PDict [])\<rparr>"
      and r = "\<lparr>status_code = 200, json_body = Some (PDict [])\<rparr>" and data = "[]"
      and user_msg = "''hello''" and mode = "''SFT_RAG''" and use_history = False]
  by (simp add: backend_responding_def ok_def raise_for_status_def initial_store_def)

text \<open>
  C7, as stated, fails: with the transcript and the state both \<^verbatim>\<open>None\<close>, the payload
  carries \<^verbatim>\<open>[]\<close> and \<^verbatim>\<open>{}\<close> instead.
\<close>

theorem build_payload_None_counterexample:
  "build_payload [PNone, PNone] ''hello'' 0 ''SFT_RAG'' False 1 =
     (PDict [(''user_msg'', PStr ''hello''), (''chat_history'', PList []),
             (''mode'', PStr ''SFT_RAG''), (''use_history'', PBool False),
             (''state'', PDict [])],
      [PNone, PNone, PList [], PDict []])"
  by (simp add: build_payload_def py_or_def alloc_def)

lemma py_get_payload_chat_history:
  "py_get (PDict [(''user_msg'', a), (''chat_history'', b), (''mode'', c),
                  (''use_history'', d), (''state'', e)]) ''chat_history'' x = Inr b"
  by simp

lemma py_get_payload_state:
  "py_get (PDict [(''user_msg'', a), (''chat_history'', b), (''mode'', c),
                  (''use_history'', d), (''state'', e)]) ''state'' x = Inr e"
  by simp

text \<open>
  C7, amended. The payload that \<^verbatim>\<open>call_api\<close> sends has exactly the five fields
  \<^verbatim>\<open>user_msg\<close>, \<^verbatim>\<open>chat_history\<close>, \<^verbatim>\<open>mode\<close>, \<^verbatim>\<open>use_history\<close>, \<^verbatim>\<open>state\<close>. The
  user message (the empty string included), the mode and the flag are the inputs as they
  came. \<^verbatim>\<open>chat_history\<close> is the input transcript when that is true and \<^verbatim>\<open>[]\<close> when
  it is not; \<^verbatim>\<open>state\<close> is the input state when that is true and \<^verbatim>\<open>{}\<close> when it is
  not. So for a list-valued transcript and a dict-valued state both fields equal the
  inputs. The result of \<^verbatim>\<open>call_api\<close> depends on the backend only through its answer
  to this payload.
\<close>

theorem call_api_payload:
  assumes "chat_history < length h" and "state < length h"
  shows "fst (build_payload h user_msg chat_history mode use_history state) =
           PDict [(''user_msg'', PStr user_msg),
                  (''chat_history'', if truthy (h ! chat_history) then h ! chat_history else PList []),
                  (''mode'', PStr mode),
                  (''use_history'', PBool use_history),
                  (''state'', if truthy (h ! state) then h ! state else PDict [])]
         \<and> (\<forall>post'. post' (fst (build_payload h user_msg chat_history mode use_history state))
                       = post (fst (build_payload h user_msg chat_history mode use_history state))
               \<longrightarrow> call_api post' h user_msg chat_history mode use_history state
                     = call_api post h user_msg chat_history mode use_history state)
         \<and> (\<forall>T. h ! chat_history = PList T \<longrightarrow>
               py_get (fst (build_payload h user_msg chat_history mode use_history state))
                 ''chat_history'' PNone = Inr (h ! chat_history))
         \<and> (\<forall>kvs. h ! state = PDict kvs \<longrightarrow>
               py_get (fst (build_payload h user_msg chat_history mode use_history state))
                 ''state'' PNone = Inr (h ! state))"
proof -
  let ?p = "fst (build_payload h user_msg chat_history mode use_history state)"
  let ?c = "if truthy (h ! chat_history) then h ! chat_history else PList []"
  let ?s = "if truthy (h ! state) then h ! state else PDict []"
  have p: "?p = PDict [(''user_msg'', PStr user_msg), (''chat_history'', ?c),
                       (''mode'', PStr mode), (''use_history'', PBool use_history),
                       (''state'', ?s)]"
    by (simp only: build_payload_eq [OF assms] fst_conv)
  have a: "call_api post' h user_msg chat_history mode use_history state
             = call_api post h user_msg chat_history mode use_history state"
    if "post' ?p = post ?p" for post'
    using that
    by (cases "build_payload h user_msg chat_history mode use_history state")
       (simp add: call_api_def call_api_try_def)
  have b: "py_get ?p ''chat_history'' PNone = Inr (h ! chat_history)"
    if "h ! chat_history = PList T" for T
  proof -
    have "?c = h ! chat_history" using that by simp
    then show ?thesis
      unfolding p py_get_payload_chat_history by (rule arg_cong)
  qed
  have c: "py_get ?p ''state'' PNone = Inr (h ! state)"
    if "h ! state = PDict kvs" for kvs
  proof -
    have "?s = h ! state" using that by simp
    then show ?thesis
      unfolding p py_get_payload_state by (rule arg_cong)
  qed
  from p a b c show ?thesis by blast
qed

theorem call_api_payload_witness:
  "fst (build_payload initial_store '''' 0 ''BASE_RAG'' True 1) =
     PDict [(''user_msg'', PStr ''''), (''chat_history'', PList []),
            (''mode'', PStr ''BASE_RAG''), (''use_history'', PBool True),
            (''state'', PDict [(''session_id'', PStr ''''), (''memory'', PList [])])]"
  using call_api_payload [where h = initial_store and chat_history = 0 and state = 1
      and user_msg = "''''" and mode = "''BASE_RAG''" and use_history = True]
  by (simp add: initial_store_def)

lemma str_int_503: "str_int 503 = ''503''"
  by code_simp

text \<open>
  C8, as stated, fails in two places. A connect timeout is a timeout, and it gets the
  "not reachable" message, because the clause for \<^verbatim>\<open>ConnectionError\<close> comes first. A
  response with a status that is not a success status gets a message with the status
  code only when the status is 4xx or 5xx: the POST does not follow redirects, and a
  301 answer without a JSON body gets the "unknown client error" message.
\<close>

theorem call_api_kinds_counterexample:
  "is_Timeout ConnectTimeout
   \<and> snd (call_api (backend_raising ConnectTimeout)
          [PList [PTuple [PStr ''q1'', PStr ''a1'']], PDict [(''session_id'', PStr ''abc123'')]]
          ''q2'' 0 ''BASE'' True 1) =
       Inr (''q2'', 2, 1,
            PStr ''Backend not reachable (connection refused). Please retry when the backend server is running...'')
   \<and> snd (call_api (backend_responding \<lparr>status_code = 301, json_body = None\<rparr>)
          [PList [PTuple [PStr ''q1'', PStr ''a1'']], PDict [(''session_id'', PStr ''abc123'')]]
          ''q2'' 0 ''BASE'' True 1) =
       Inr (''q2'', 2, 1, PStr ''Unknown client error.'')"
  by (simp add: call_api_eval)

text \<open>
  C8, amended. For every transcript that is a list (or another value that \<^verbatim>\<open>list()\<close>
  accepts) and every failure of the chat call, the exception is handled by the first
  clause that matches it, and the message of that clause is both the assistant text of
  the one appended turn and the status returned. Every \<^verbatim>\<open>ConnectionError\<close>, a connect
  timeout included, gives the "not reachable" message. A \<^verbatim>\<open>Timeout\<close> that is not a
  \<^verbatim>\<open>ConnectionError\<close> gives the "took too long" message. An \<^verbatim>\<open>HTTPError\<close> gives a
  message with the decimal status code of its response, and any other exception gives
  the "unknown client error" message. When the POST returns a response and the call
  still fails, the message carries the status code exactly when the status is 4xx or
  5xx; for any other status (the body does not decode, or is not a JSON object) it is the
  "unknown client error" message.
\<close>

theorem call_api_failure_messages:
  assumes "chat_history < length h" and "py_list (h ! chat_history) = Inr xs"
    and "call_api_try post (fst (build_payload h user_msg chat_history mode use_history state)) = Inl e"
  shows "\<exists>h' ch st msg.
           call_api post h user_msg chat_history mode use_history state =
             (h', Inr (user_msg, ch, st, PStr msg))
           \<and> h' ! ch = PList (xs @ [PTuple [PStr user_msg, PStr msg]])
           \<and> (is_ConnectionError e \<longrightarrow> msg =
                ''Backend not reachable (connection refused). Please retry when the backend server is running...'')
           \<and> (is_Timeout e \<and> \<not> is_ConnectionError e \<longrightarrow>
                msg = ''Backend took too long. Please try again later.'')
           \<and> (\<forall>r. e = HTTPError r \<longrightarrow>
                msg = ''Backend returned HTTP Error : '' @ str_int (status_code r) @ ''.'')
           \<and> (\<not> is_ConnectionError e \<and> \<not> is_Timeout e \<and> (\<forall>r. e \<noteq> HTTPError r) \<longrightarrow>
                msg = ''Unknown client error.'')
           \<and> (\<forall>r. post (fst (build_payload h user_msg chat_history mode use_history state)) = Responds r
                  \<longrightarrow> (if 400 \<le> status_code r \<and> status_code r < 600
                       then msg = ''Backend returned HTTP Error : '' @ str_int (status_code r) @ ''.''
                       else msg = ''Unknown client error.''))"
proof -
  let ?p = "fst (build_payload h user_msg chat_history mode use_history state)"
  have 1: "is_ConnectionError e \<Longrightarrow> err_msg e =
      ''Backend not reachable (connection refused). Please retry when the backend server is running...''"
    by (simp add: err_msg_def)
  have 2: "is_Timeout e \<and> \<not> is_ConnectionError e \<Longrightarrow>
      err_msg e = ''Backend took too long. Please try again later.''"
    by (simp add: err_msg_def)
  have 3: "e = HTTPError r \<Longrightarrow>
      err_msg e = ''Backend returned HTTP Error : '' @ str_int (status_code r) @ ''.''" for r
    by (simp add: err_msg_def)
  have 4: "\<not> is_ConnectionError e \<and> \<not> is_Timeout e \<and> (\<forall>r. e \<noteq> HTTPError r) \<Longrightarrow>
      err_msg e = ''Unknown client error.''"
    by (cases e) (simp_all add: err_msg_def)
  have 5: "if 400 \<le> status_code r \<and> status_code r < 600
           then err_msg e = ''Backend returned HTTP Error : '' @ str_int (status_code r) @ ''.''
           else err_msg e = ''Unknown client error.''"
    if r: "post ?p = Responds r" for r
  proof (cases "400 \<le> status_code r \<and> status_code r < 600")
    case True
    with r have "call_api_try post ?p = Inl (HTTPError r)"
      by (simp add: call_api_try_def raise_for_status_def)
    with assms(3) have "e = HTTPError r" by simp
    with True 3 show ?thesis by simp
  next
    case False
    with r assms(3) have "e = JSONDecodeError \<or> e = AttributeError"
      by (auto simp add: call_api_try_def raise_for_status_def json_def
               split: option.splits pyval.splits)
    then have "err_msg e = ''Unknown client error.''"
      by (auto simp add: err_msg_def)
    with False show ?thesis by simp
  qed
  from call_api_fail_iterable [OF assms]
  obtain h' ch st where
    r: "call_api post h user_msg chat_history mode use_history state =
          (h', Inr (user_msg, ch, st, PStr (err_msg e)))"
       "h' ! ch = PList (xs @ [PTuple [PStr user_msg, PStr (err_msg e)]])"
    by blast
  from r 1 2 3 4 5 show ?thesis by blast
qed

theorem call_api_failure_messages_witness:
  "(\<exists>h' ch st.
      call_api (backend_raising ConnectTimeout) initial_store ''q'' 0 ''SFT'' False 1 =
        (h', Inr (''q'', ch, st, PStr ''Backend not reachable (connection refused). Please retry when the backend server is running...'')))
   \<and> (\<exists>h' ch st.
      call_api (backend_raising ReadTimeout) initial_store ''q'' 0 ''SFT'' False 1 =
        (h', Inr (''q'', ch, st, PStr ''Backend took too long. Please try again later.'')))
   \<and> (\<exists>h' ch st.
      call_api (backend_responding \<lparr>status_code = 503, json_body = None\<rparr>)
        initial_store ''q'' 0 ''SFT'' False 1 =
        (h', Inr (''q'', ch, st, PStr ''Backend returned HTTP Error : 503.'')))
   \<and> (\<exists>h' ch st.
      call_api (backend_responding \<lparr>status_code = 301, json_body = None\<rparr>)
        initial_store ''q'' 0 ''SFT'' False 1 =
        (h', Inr (''q'', ch, st, PStr ''Unknown client error.'')))
   \<and> (\<exists>h' ch st.
      call_api (backend_raising OtherException) initial_store ''q'' 0 ''SFT'' False 1 =
        (h', Inr (''q'', ch, st, PStr ''Unknown client error.'')))"
proof -
  have 1: "call_api_try (backend_raising ConnectTimeout) p = Inl ConnectTimeout" for p
    by (simp add: call_api_try_def backend_raising_def)
  have 2: "call_api_try (backend_raising ReadTimeout) p = Inl ReadTimeout" for p
    by (simp add: call_api_try_def backend_raising_def)
  have 3: "call_api_try (backend_responding \<lparr>status_code = 503, json_body = None\<rparr>) p
             = Inl (HTTPError \<lparr>status_code = 503, json_body = None\<rparr>)" for p
    by (simp add: call_api_try_def backend_responding_def raise_for_status_def)
  have 4: "call_api_try (backend_responding \<lparr>status_code = 301, json_body = None\<rparr>) p
             = Inl JSONDecodeError" for p
    by (simp add: call_api_try_def backend_responding_def raise_for_status_def json_def)
  have 5: "call_api_try (backend_raising OtherException) p = Inl OtherException" for p
    by (simp add: call_api_try_def backend_raising_def)
  have i: "0 < length initial_store" "py_list (initial_store ! 0) = Inr []"
    by (simp_all add: initial_store_def)
  from call_api_failure_messages [OF i 1, of "''q''" "''SFT''" False 1]
  have A: "\<exists>h' ch st.
      call_api (backend_raising ConnectTimeout) initial_store ''q'' 0 ''SFT'' False 1 =
        (h', Inr (''q'', ch, st, PStr ''Backend not reachable (connection refused). Please retry when the backend server is running...''))"
    by auto
  from call_api_failure_messages [OF i 2, of "''q''" "''SFT''" False 1]
  have B: "\<exists>h' ch st.
      call_api (backend_raising ReadTimeout) initial_store ''q'' 0 ''SFT'' False 1 =
        (h', Inr (''q'', ch, st, PStr ''Backend took too long. Please try again later.''))"
    by auto
  from call_api_failure_messages [OF i 3, of "''q''" "''SFT''" False 1]
  have C: "\<exists>h' ch st.
      call_api (backend_responding \<lparr>status_code = 503, json_body = None\<rparr>)
        initial_store ''q'' 0 ''SFT'' False 1 =
        (h', Inr (''q'', ch, st, PStr ''Backend returned HTTP Error : 503.''))"
    by (auto simp add: str_int_503)
  from call_api_failure_messages [OF i 4, of "''q''" "''SFT''" False 1]
  have D: "\<exists>h' ch st.
      call_api (backend_responding \<lparr>status_code = 301, json_body = None\<rparr>)
        initial_store ''q'' 0 ''SFT'' False 1 =
        (h', Inr (''q'', ch, st, PStr ''Unknown client error.''))"
    by auto
  from call_api_failure_messages [OF i 5, of "''q''" "''SFT''" False 1]
  have E: "\<exists>h' ch st.
      call_api (backend_raising OtherException) initial_store ''q'' 0 ''SFT'' False 1 =
        (h', Inr (''q'', ch, st, PStr ''Unknown client error.''))"
    by auto
  from A B C D E show ?thesis by (intro conjI)
qed

text \<open>
  C9. For every successful chat call, the first component of the tuple that
  \<^verbatim>\<open>call_api\<close> returns is the input user message, whatever the message is (the empty
  string included).
\<close>

theorem call_api_keeps_user_msg:
  assumes "post (fst (build_payload h user_msg chat_history mode use_history state)) = Responds r"
    and "ok r" and "json_body r = Some (PDict data)"
  shows "\<exists>h' ch st status.
           call_api post h user_msg chat_history mode use_history state =
             (h', Inr (user_msg, ch, st, status))"
proof -
  have "call_api_try post (fst (build_payload h user_msg chat_history mode use_history state)) = Inr data"
    unfolding call_api_try_Inr using assms by blast
  from call_api_success [OF this] show ?thesis by blast
qed

theorem call_api_keeps_user_msg_witness:
  "\<exists>h' ch st status.
     call_api (backend_responding \<lparr>status_code = 200,
        json_body = Some (PDict [(''chat_history'', PList [PList [PStr '''', PStr ''Please ask a question.'']]),
                                 (''status'', PStr ''mode=SFT_RAG'')])\<rparr>)
       initial_store '''' 0 ''SFT_RAG'' False 1 = (h', Inr ('''', ch, st, status))"
  using call_api_keeps_user_msg [where h = initial_store and chat_history = 0 and state = 1
      and post = "backend_responding \<lparr>status_code = 200,
        json_body = Some (PDict [(''chat_history'', PList [PList [PStr '''', PStr ''Please ask a question.'']]),
                                 (''status'', PStr ''mode=SFT_RAG'')])\<rparr>"
      and user_msg = "''''" and mode = "''SFT_RAG''" and use_history = False]
  by (simp add: backend_responding_def ok_def raise_for_status_def)

text \<open>
  C10. \<^verbatim>\<open>call_api\<close> changes no object of its caller: the store after the call is the
  store before it followed by new objects, so the input transcript is what it was. When
  the chat call fails and \<^verbatim>\<open>call_api\<close> returns, the transcript returned is one of the
  new objects (the copy that the turn was appended to), not the caller's list.
\<close>

theorem call_api_keeps_caller_objects:
  "take (length h) (fst (call_api post h user_msg chat_history mode use_history state)) = h
   \<and> (\<forall>e h' um ch st status.
        call_api_try post (fst (build_payload h user_msg chat_history mode use_history state)) = Inl e
        \<and> call_api post h user_msg chat_history mode use_history state = (h', Inr (um, ch, st, status))
        \<longrightarrow> length h \<le> ch)"
proof -
  obtain ys where "fst (call_api post h user_msg chat_history mode use_history state) = h @ ys"
    using call_api_ext by blast
  then have a: "take (length h) (fst (call_api post h user_msg chat_history mode use_history state)) = h"
    by simp
  obtain zs where zs: "snd (build_payload h user_msg chat_history mode use_history state) = h @ zs"
    using build_payload_ext by blast
  have b: "length h \<le> ch"
    if "call_api_try post (fst (build_payload h user_msg chat_history mode use_history state)) = Inl e"
      and "call_api post h user_msg chat_history mode use_history state = (h', Inr (um, ch, st, status))"
    for e h' um ch st status
  proof -
    from that have "handler (h @ zs) user_msg chat_history state (err_msg e) = (h', Inr (um, ch, st, status))"
      using call_api_Inl [OF that(1)] zs by simp
    from handler_fresh [OF this] show ?thesis by simp
  qed
  from a b show ?thesis by blast
qed

theorem call_api_keeps_caller_objects_witness:
  "take (length [PList [PTuple [PStr ''q1'', PStr ''a1'']], PDict []])
     (fst (call_api (backend_raising ConnectionError)
        [PList [PTuple [PStr ''q1'', PStr ''a1'']], PDict []] ''q2'' 0 ''SFT'' True 1))
     = [PList [PTuple [PStr ''q1'', PStr ''a1'']], PDict []]
   \<and> call_api (backend_raising ConnectionError)
        [PList [PTuple [PStr ''q1'', PStr ''a1'']], PDict []] ''q2'' 0 ''SFT'' True 1 =
       ([PList [PTuple [PStr ''q1'', PStr ''a1'']], PDict [], PDict [],
         PList [PTuple [PStr ''q1'', PStr ''a1''],
                PTuple [PStr ''q2'', PStr ''Backend not reachable (connection refused). Please retry when the backend server is running...'']],
         PDict []],
        Inr (''q2'', 3, 4,
             PStr ''Backend not reachable (connection refused). Please retry when the backend server is running...''))
   \<and> length [PList [PTuple [PStr ''q1'', PStr ''a1'']], PDict []] \<le> (3::nat)"
  using call_api_keeps_caller_objects [where post = "backend_raising ConnectionError"
      and h = "[PList [PTuple [PStr ''q1'', PStr ''a1'']], PDict []]" and user_msg = "''q2''"
      and chat_history = 0 and mode = "''SFT''" and use_history = True and state = 1]
  by (simp add: call_api_eval)

end
